theory Spec2Isabelle
  imports Complex_Main "HOL-Library.AList"
begin

section \<open>The Payment model (models/payment.py)\<close>

text \<open>
  Values stored in the JSON \<open>payment_data\<close> column. The column holds JSON text that
  \<open>get_payment_data\<close> decodes and \<open>set_payment_data\<close> encodes; the model keeps the
  decoded dictionary, as an association list.
\<close>

datatype json_value = JStr string | JBool bool | JInt int | JTime nat

text \<open>
  The columns of \<open>Payment\<close>. \<open>amount\<close> is a \<open>Numeric(20, 8)\<close> decimal, kept as a
  rational; \<open>created_at\<close> and \<open>updated_at\<close> are instants, kept as naturals. The primary key
  \<open>id\<close> is called \<open>payment_id\<close> here.
\<close>

record payment =
  payment_id :: string
  user_id :: int
  provider :: string
  amount :: rat
  currency :: string
  status :: string
  transaction_id :: "string option"
  payment_data :: "(string \<times> json_value) list"
  created_at :: nat
  updated_at :: nat

text \<open>Python truthiness of an optional string: \<open>None\<close> and \<open>''\<close> are falsy.\<close>

fun truthy :: "string option \<Rightarrow> bool" where
  "truthy None = False"
| "truthy (Some s) = (s \<noteq> [])"

definition valid_statuses :: "string list" where
  "valid_statuses = [''pending'', ''completed'', ''failed'', ''cancelled'']"

text \<open>
  \<open>Payment.update_status(new_status, transaction_id=None)\<close>: the returned boolean and the
  record after the call. \<open>now\<close> is the value of \<open>datetime.utcnow()\<close>.
\<close>

definition update_status :: "nat \<Rightarrow> string \<Rightarrow> string option \<Rightarrow> payment \<Rightarrow> bool \<times> payment" where
  "update_status now new_status txid p =
     (if new_status \<in> set valid_statuses then
        (let p1 = p\<lparr>status := new_status\<rparr>;
             p2 = (if truthy txid then p1\<lparr>transaction_id := txid\<rparr> else p1)
         in (True, p2\<lparr>updated_at := now\<rparr>))
      else (False, p))"

definition mark_completed :: "nat \<Rightarrow> string option \<Rightarrow> payment \<Rightarrow> bool \<times> payment" where
  "mark_completed now txid p = update_status now ''completed'' txid p"

text \<open>\<open>data[key] = value\<close> on the decoded \<open>payment_data\<close>, written back.\<close>

definition set_data_key :: "string \<Rightarrow> json_value \<Rightarrow> payment \<Rightarrow> payment" where
  "set_data_key k v p = p\<lparr>payment_data := AList.update k v (payment_data p)\<rparr>"

definition mark_failed :: "nat \<Rightarrow> string option \<Rightarrow> payment \<Rightarrow> bool \<times> payment" where
  "mark_failed now reason p =
     update_status now ''failed'' None
       (case reason of
          None \<Rightarrow> p
        | Some r \<Rightarrow> if r \<noteq> [] then set_data_key ''failure_reason'' (JStr r) p else p)"

definition cancel :: "nat \<Rightarrow> string option \<Rightarrow> payment \<Rightarrow> bool \<times> payment" where
  "cancel now reason p =
     update_status now ''cancelled'' None
       (case reason of
          None \<Rightarrow> p
        | Some r \<Rightarrow> if r \<noteq> [] then set_data_key ''cancellation_reason'' (JStr r) p else p)"


section \<open>The payment routes (routes/payments.py)\<close>

text \<open>
  Each route is modelled on the record that \<open>Payment.query.get\<close> found, and returns the
  HTTP status code with the record as committed. The audit-log and request helpers are
  external collaborators and are not part of the model.
\<close>

definition sync_results :: "string list" where
  "sync_results = [''completed'', ''pending'', ''failed'']"

text \<open>\<open>random.choice(seq)\<close>: the element at a random index below \<open>len(seq)\<close>; the
  random draw \<open>rnd\<close> is an input.\<close>

definition random_choice :: "nat \<Rightarrow> 'a list \<Rightarrow> 'a" where
  "random_choice rnd xs = xs ! (rnd mod length xs)"

definition sync_payment :: "nat \<Rightarrow> nat \<Rightarrow> payment \<Rightarrow> nat \<times> payment" where
  "sync_payment rnd now p =
     (let new_status = random_choice rnd sync_results;
          p1 = snd (update_status now new_status None p);
          p2 = set_data_key ''last_sync'' (JTime now) p1;
          p3 = set_data_key ''sync_result'' (JStr ''success'') p2
      in (200, p3))"

text \<open>
  A JSON request field read with \<open>data.get(key, default)\<close>: \<open>None\<close> when the key is
  absent (the default is used), \<open>Some None\<close> when it is present and \<open>null\<close>.
\<close>

type_synonym request_field = "string option option"

definition get_field :: "request_field \<Rightarrow> string \<Rightarrow> string option" where
  "get_field f dflt = (case f of None \<Rightarrow> Some dflt | Some v \<Rightarrow> v)"

definition cancel_payment :: "request_field \<Rightarrow> nat \<Rightarrow> payment \<Rightarrow> nat \<times> payment" where
  "cancel_payment req_reason now p =
     (if status p \<notin> set [''pending''] then (400, p)
      else (let reason = get_field req_reason ''Cancelled by admin''
            in (200, snd (cancel now reason p))))"

text \<open>
  \<open>force_confirm_payment\<close>: \<open>stamp\<close> is \<open>datetime.utcnow().strftime("%Y%m%d_%H%M%S")\<close>
  and \<open>actor\<close> is \<open>current_user.id\<close>.
\<close>

definition force_confirm_payment ::
    "request_field \<Rightarrow> string \<Rightarrow> int \<Rightarrow> nat \<Rightarrow> payment \<Rightarrow> nat \<times> payment" where
  "force_confirm_payment req_txid stamp actor now p =
     (if status p = ''completed'' then (400, p)
      else (let txid = get_field req_txid (''ADMIN_OVERRIDE_'' @ stamp);
                p1 = snd (mark_completed now txid p);
                p2 = set_data_key ''force_confirmed'' (JBool True) p1;
                p3 = set_data_key ''confirmed_by'' (JInt actor) p2;
                p4 = set_data_key ''confirmed_at'' (JTime now) p3
            in (200, p4)))"

text \<open>
  The operations that write a payment's status: a direct \<open>update_status\<close> call (what a
  status reconciliation performs with the status it observed), \<open>mark_failed\<close>, and the
  three routes. A history is a list of operations, each with the instant it runs at.
\<close>

datatype operation =
    Update_status string "string option"
  | Mark_failed "string option"
  | Sync nat
  | Cancel request_field
  | Force_confirm request_field string int

fun apply_op :: "nat \<times> operation \<Rightarrow> payment \<Rightarrow> payment" where
  "apply_op (now, Update_status s txid) p = snd (update_status now s txid p)"
| "apply_op (now, Mark_failed reason) p = snd (mark_failed now reason p)"
| "apply_op (now, Sync rnd) p = snd (sync_payment rnd now p)"
| "apply_op (now, Cancel req_reason) p = snd (cancel_payment req_reason now p)"
| "apply_op (now, Force_confirm req_txid stamp actor) p =
     snd (force_confirm_payment req_txid stamp actor now p)"

fun run_ops :: "(nat \<times> operation) list \<Rightarrow> payment \<Rightarrow> payment" where
  "run_ops [] p = p"
| "run_ops (x # xs) p = run_ops xs (apply_op x p)"

text \<open>The terminal states of the lifecycle, as the specification lists them.\<close>

definition terminal :: "string \<Rightarrow> bool" where
  "terminal s = (s \<in> set [''completed'', ''failed'', ''expired'', ''cancelled''])"

text \<open>The status an operation asks \<open>update_status\<close> to write, when it reaches that call.\<close>

fun requested_status :: "operation \<Rightarrow> string" where
  "requested_status (Update_status s txid) = s"
| "requested_status (Mark_failed reason) = ''failed''"
| "requested_status (Sync rnd) = random_choice rnd sync_results"
| "requested_status (Cancel req_reason) = ''cancelled''"
| "requested_status (Force_confirm req_txid stamp actor) = ''completed''"

text \<open>The transaction id an operation passes to \<open>update_status\<close>, when it reaches that call.\<close>

fun carried_txid :: "operation \<Rightarrow> string option" where
  "carried_txid (Update_status s tid) = tid"
| "carried_txid (Mark_failed reason) = None"
| "carried_txid (Sync rnd) = None"
| "carried_txid (Cancel req_reason) = None"
| "carried_txid (Force_confirm req_txid stamp actor) = get_field req_txid (''ADMIN_OVERRIDE_'' @ stamp)"

section \<open>Upstream calls and Python exceptions\<close>

text \<open>
  What an outgoing HTTP call can do: the client raises (connection error, timeout, a body
  that is not JSON), or a response arrives with a status code and a decoded body. The
  body is only read when the code is 200.
\<close>

datatype 'a upstream = Raised | Response nat 'a

datatype exn = Request_error | Api_error nat | Attribute_error | Index_error | Value_error

text \<open>ASCII \<open>str.lower()\<close> and \<open>str.upper()\<close>; addresses and currency codes are ASCII.\<close>

definition lower_char :: "char \<Rightarrow> char" where
  "lower_char c = (let n = (of_char c :: nat) in if 65 \<le> n \<and> n \<le> 90 then char_of (n + 32) else c)"

definition upper_char :: "char \<Rightarrow> char" where
  "upper_char c = (let n = (of_char c :: nat) in if 97 \<le> n \<and> n \<le> 122 then char_of (n - 32) else c)"

definition lower :: "string \<Rightarrow> string" where
  "lower s = map lower_char s"

definition upper :: "string \<Rightarrow> string" where
  "upper s = map upper_char s"

section \<open>The blockchain service (services/blockchain_service.py)\<close>

text \<open>
  Amounts are Python floats in the source. The model computes with exact rationals: the
  division by the power of ten and the comparison with the expected amount are exact,
  and the rounding of binary floating point is outside the model.
\<close>

text \<open>\<open>BlockchainService._make_request\<close>: the JSON body on status 200, otherwise \<open>None\<close>.\<close>

definition make_request :: "'a upstream \<Rightarrow> 'a option" where
  "make_request u = (case u of Raised \<Rightarrow> None | Response code body \<Rightarrow> if code = 200 then Some body else None)"

text \<open>
  The dictionaries a verifier returns: \<open>{'verified': True, 'transaction_id', 'amount',
  'confirmations', 'block_height' / 'block_number'}\<close>, \<open>{'verified': False, 'error'}\<close> and
  \<open>{'verified': False, 'reason'}\<close>.
\<close>

datatype verify_error = Failed_to_fetch | Exception exn | Unsupported_currency string

datatype verify_result =
    Verified (vr_transaction_id: "string option") (vr_amount: rat) (vr_confirmations: int)
      (vr_block: "nat option")
  | Not_verified_error verify_error
  | Not_verified_reason string


definition not_found :: "verify_result" where
  "not_found = Not_verified_reason ''Payment not found or insufficient amount''"

subsection \<open>Bitcoin\<close>

text \<open>A transaction of the Blockstream address listing; an absent key is \<open>None\<close>.\<close>

record btc_output =
  scriptpubkey_address :: "string option"
  out_value :: "int option"

record btc_status =
  confirmed :: bool
  block_height :: "nat option"

record btc_tx =
  btc_txid :: "string option"
  vout :: "btc_output list option"
  tx_status :: "btc_status option"

text \<open>The inner loop over \<open>tx.get('vout', [])\<close>; \<open>Some r\<close> when it returns from the function.\<close>

fun scan_btc_outputs :: "string \<Rightarrow> rat \<Rightarrow> btc_tx \<Rightarrow> btc_output list \<Rightarrow> verify_result option" where
  "scan_btc_outputs address amt tx [] = None"
| "scan_btc_outputs address amt tx (out # outs) =
     (if scriptpubkey_address out = Some address then
        (let received_amount = of_int (case out_value out of None \<Rightarrow> 0 | Some v \<Rightarrow> v) / 100000000;
             confirmations = (case tx_status tx of None \<Rightarrow> False | Some st \<Rightarrow> confirmed st)
         in if received_amount \<ge> amt \<and> confirmations then
              Some (Verified (btc_txid tx) received_amount (if confirmations then 1 else 0)
                      (case tx_status tx of None \<Rightarrow> None | Some st \<Rightarrow> block_height st))
            else scan_btc_outputs address amt tx outs)
      else scan_btc_outputs address amt tx outs)"

fun scan_btc :: "string \<Rightarrow> rat \<Rightarrow> btc_tx list \<Rightarrow> verify_result option" where
  "scan_btc address amt [] = None"
| "scan_btc address amt (tx # txs) =
     (case scan_btc_outputs address amt tx (case vout tx of None \<Rightarrow> [] | Some os \<Rightarrow> os) of
        Some r \<Rightarrow> Some r
      | None \<Rightarrow> scan_btc address amt txs)"

text \<open>
  \<open>verify_btc_payment\<close>: \<open>upstream_txs\<close> is what the request for the address listing
  does. The source's parameter \<open>min_confirmations\<close> is never read. \<open>if not transactions\<close>
  holds for \<open>None\<close> and for the empty list.
\<close>

definition verify_btc_payment :: "btc_tx list upstream \<Rightarrow> string \<Rightarrow> rat \<Rightarrow> verify_result" where
  "verify_btc_payment upstream_txs address amt =
     (case make_request upstream_txs of
        None \<Rightarrow> Not_verified_error Failed_to_fetch
      | Some transactions \<Rightarrow>
          if transactions = [] then Not_verified_error Failed_to_fetch
          else (case scan_btc address amt transactions of
                  Some r \<Rightarrow> r
                | None \<Rightarrow> not_found))"

subsection \<open>Ethereum and BSC token transfers\<close>

text \<open>A transfer of the Etherscan / BscScan \<open>tokentx\<close> listing, and the response envelope.\<close>

record token_tx =
  tx_to :: "string option"
  tx_value :: "int option"
  tx_confirmations :: "int option"
  tx_hash :: "string option"
  blockNumber :: "nat option"

record scan_response =
  resp_status :: "string option"
  resp_result :: "token_tx list option"

text \<open>
  The loop of \<open>verify_eth_usdt_payment\<close>. \<open>tx.get('to').lower()\<close> raises
  \<open>AttributeError\<close> when the transfer has no \<open>to\<close>.
\<close>

fun scan_eth :: "string \<Rightarrow> rat \<Rightarrow> token_tx list \<Rightarrow> exn + verify_result option" where
  "scan_eth address amt [] = Inr None"
| "scan_eth address amt (tx # txs) =
     (case tx_to tx of
        None \<Rightarrow> Inl Attribute_error
      | Some t \<Rightarrow>
          if lower t = lower address then
            (let received_amount = of_int (case tx_value tx of None \<Rightarrow> 0 | Some v \<Rightarrow> v) / 1000000;
                 confirmations = (case tx_confirmations tx of None \<Rightarrow> 0 | Some c \<Rightarrow> c)
             in if received_amount \<ge> amt \<and> confirmations \<ge> 1 then
                  Inr (Some (Verified (tx_hash tx) received_amount confirmations (blockNumber tx)))
                else scan_eth address amt txs)
          else scan_eth address amt txs)"

text \<open>
  \<open>verify_eth_usdt_payment\<close>; the API key only enters the request, whose answer is the
  input \<open>upstream_resp\<close>.
\<close>

definition verify_eth_usdt_payment :: "scan_response upstream \<Rightarrow> string \<Rightarrow> rat \<Rightarrow> verify_result" where
  "verify_eth_usdt_payment upstream_resp address amt =
     (case make_request upstream_resp of
        None \<Rightarrow> Not_verified_error Failed_to_fetch
      | Some response \<Rightarrow>
          if resp_status response \<noteq> Some ''1'' then Not_verified_error Failed_to_fetch
          else (case scan_eth address amt
                       (case resp_result response of None \<Rightarrow> [] | Some ts \<Rightarrow> ts) of
                  Inl e \<Rightarrow> Not_verified_error (Exception e)
                | Inr (Some r) \<Rightarrow> r
                | Inr None \<Rightarrow> not_found))"

text \<open>The loop of \<open>verify_bsc_usdt_payment\<close>.\<close>

fun scan_bsc :: "string \<Rightarrow> rat \<Rightarrow> token_tx list \<Rightarrow> exn + verify_result option" where
  "scan_bsc address amt [] = Inr None"
| "scan_bsc address amt (tx # txs) =
     (case tx_to tx of
        None \<Rightarrow> Inl Attribute_error
      | Some t \<Rightarrow>
          if lower t = lower address then
            (let received_amount =
                   of_int (case tx_value tx of None \<Rightarrow> 0 | Some v \<Rightarrow> v) / 1000000000000000000;
                 confirmations = (case tx_confirmations tx of None \<Rightarrow> 0 | Some c \<Rightarrow> c)
             in if received_amount \<ge> amt \<and> confirmations \<ge> 1 then
                  Inr (Some (Verified (tx_hash tx) received_amount confirmations (blockNumber tx)))
                else scan_bsc address amt txs)
          else scan_bsc address amt txs)"

definition verify_bsc_usdt_payment :: "scan_response upstream \<Rightarrow> string \<Rightarrow> rat \<Rightarrow> verify_result" where
  "verify_bsc_usdt_payment upstream_resp address amt =
     (case make_request upstream_resp of
        None \<Rightarrow> Not_verified_error Failed_to_fetch
      | Some response \<Rightarrow>
          if resp_status response \<noteq> Some ''1'' then Not_verified_error Failed_to_fetch
          else (case scan_bsc address amt
                       (case resp_result response of None \<Rightarrow> [] | Some ts \<Rightarrow> ts) of
                  Inl e \<Rightarrow> Not_verified_error (Exception e)
                | Inr (Some r) \<Rightarrow> r
                | Inr None \<Rightarrow> not_found))"

subsection \<open>TRON\<close>

record tron_tx =
  trc_to :: "string option"
  trc_value :: "int option"
  trc_transaction_id :: "string option"
  trc_block_number :: "nat option"

record tron_response =
  success :: bool
  data :: "tron_tx list option"

text \<open>The body of \<open>/wallet/gettransactionbyid\<close>, and the dictionary made from it.\<close>

record tron_tx_body =
  body_blockNumber :: "nat option"
  energy_usage_total :: "int option"

record tron_tx_info =
  info_confirmed :: bool
  info_block_number :: "nat option"
  energy_used :: int

text \<open>
  \<open>_get_tron_transaction_info\<close>: \<open>None\<close> is the empty dictionary, returned on a status
  other than 200 and on any exception.
\<close>

definition get_tron_transaction_info :: "tron_tx_body upstream \<Rightarrow> tron_tx_info option" where
  "get_tron_transaction_info u =
     (case u of
        Raised \<Rightarrow> None
      | Response code result \<Rightarrow>
          if code = 200 then
            Some \<lparr>info_confirmed = (body_blockNumber result \<noteq> None),
                  info_block_number = body_blockNumber result,
                  energy_used = (case energy_usage_total result of None \<Rightarrow> 0 | Some e \<Rightarrow> e)\<rparr>
          else None)"

text \<open>
  The loop of \<open>verify_tron_usdt_payment\<close>; \<open>lookup_tx\<close> is what the node answers to the
  secondary request for a transaction id.
\<close>

fun scan_tron ::
    "(string option \<Rightarrow> tron_tx_body upstream) \<Rightarrow> string \<Rightarrow> rat \<Rightarrow> tron_tx list \<Rightarrow> verify_result option" where
  "scan_tron lookup_tx address amt [] = None"
| "scan_tron lookup_tx address amt (tx # txs) =
     (if trc_to tx = Some address then
        (let received_amount = of_int (case trc_value tx of None \<Rightarrow> 0 | Some v \<Rightarrow> v) / 1000000;
             tx_info = get_tron_transaction_info (lookup_tx (trc_transaction_id tx));
             is_confirmed = (case tx_info of None \<Rightarrow> False | Some i \<Rightarrow> info_confirmed i)
         in if received_amount \<ge> amt \<and> is_confirmed then
              Some (Verified (trc_transaction_id tx) received_amount (if is_confirmed then 1 else 0)
                      (trc_block_number tx))
            else scan_tron lookup_tx address amt txs)
      else scan_tron lookup_tx address amt txs)"

definition verify_tron_usdt_payment ::
    "tron_response upstream \<Rightarrow> (string option \<Rightarrow> tron_tx_body upstream) \<Rightarrow> string \<Rightarrow> rat \<Rightarrow> verify_result" where
  "verify_tron_usdt_payment upstream_resp lookup_tx address amt =
     (case make_request upstream_resp of
        None \<Rightarrow> Not_verified_error Failed_to_fetch
      | Some response \<Rightarrow>
          if \<not> success response then Not_verified_error Failed_to_fetch
          else (case scan_tron lookup_tx address amt
                       (case data response of None \<Rightarrow> [] | Some ts \<Rightarrow> ts) of
                  Some r \<Rightarrow> r
                | None \<Rightarrow> not_found))"

subsection \<open>Dispatch on currency and network\<close>

text \<open>What the four upstream APIs answer, per address.\<close>

record chain =
  btc_api :: "string \<Rightarrow> btc_tx list upstream"
  eth_api :: "string \<Rightarrow> scan_response upstream"
  bsc_api :: "string \<Rightarrow> scan_response upstream"
  tron_api :: "string \<Rightarrow> tron_response upstream"
  tron_lookup :: "string option \<Rightarrow> tron_tx_body upstream"

text \<open>Python's \<open>sub in s\<close> on strings.\<close>

fun contains :: "string \<Rightarrow> string \<Rightarrow> bool" where
  "contains sub [] = (sub = [])"
| "contains sub (c # cs) = (take (length sub) (c # cs) = sub \<or> contains sub cs)"

definition verify_payment :: "chain \<Rightarrow> string \<Rightarrow> string \<Rightarrow> rat \<Rightarrow> string option \<Rightarrow> verify_result" where
  "verify_payment ch currency0 address amt network =
     (let cur = upper currency0 in
      if cur = ''BTC'' then verify_btc_payment (btc_api ch address) address amt
      else if cur = ''USDT'' then
        (if network = Some ''TRC20'' \<or> contains ''TRC20'' cur then
           verify_tron_usdt_payment (tron_api ch address) (tron_lookup ch) address amt
         else if network = Some ''ERC20'' \<or> contains ''ERC20'' cur then
           verify_eth_usdt_payment (eth_api ch address) address amt
         else if network = Some ''BEP20'' \<or> contains ''BEP20'' cur then
           verify_bsc_usdt_payment (bsc_api ch address) address amt
         else verify_tron_usdt_payment (tron_api ch address) (tron_lookup ch) address amt)
      else Not_verified_error (Unsupported_currency cur))"

section \<open>The payment service (services/payment_service.py)\<close>

record payment_service =
  nowpayments_api_key :: "string option"
  btcpay_api_key :: "string option"
  btcpay_url :: "string option"

definition wallet_addresses :: "(string \<times> string) list" where
  "wallet_addresses =
     [(''BTC'', ''14MxL4x95TRTYJroWe8bWy4wSLq6c4WCr5''),
      (''USDT_TRC20'', ''TJkLFH53mJUzaTMxLtYqa28jzL9CppJotV''),
      (''USDT_ERC20'', ''0xdd3a7fd3a23c7bf18a9956ca1a1cc8f35d4fce25'')]"

text \<open>
  \<open>_handle_response\<close> inside \<open>_make_nowpayments_request\<close>: the body on status 200; any
  other status raises, and so does a failing request (logged and raised again).
\<close>

definition make_nowpayments_request :: "'a upstream \<Rightarrow> exn + 'a" where
  "make_nowpayments_request u =
     (case u of
        Raised \<Rightarrow> Inl Request_error
      | Response code body \<Rightarrow> if code = 200 then Inr body else Inl (Api_error code))"

definition make_btcpay_request :: "payment_service \<Rightarrow> 'a upstream \<Rightarrow> exn + 'a" where
  "make_btcpay_request svc u =
     (if \<not> truthy (btcpay_url svc) \<or> \<not> truthy (btcpay_api_key svc) then Inl Value_error
      else (case u of
              Raised \<Rightarrow> Inl Request_error
            | Response code body \<Rightarrow> if code = 200 then Inr body else Inl (Api_error code)))"

text \<open>
  The invoice dictionary. The \<open>instructions\<close> texts of a manual invoice are display
  strings and are left out.
\<close>

record invoice =
  inv_invoice_id :: "string option"
  inv_payment_url :: "string option"
  inv_address :: "string option"
  inv_amount :: "rat option"
  inv_currency :: "string option"
  inv_status :: string
  inv_expires_at :: "json_value option"
  inv_provider :: string

record np_invoice_response =
  np_id :: "string option"
  np_invoice_url :: "string option"
  np_pay_address :: "string option"
  np_pay_amount :: "rat option"
  np_pay_currency :: "string option"
  np_created_at :: "string option"

definition create_nowpayments_invoice :: "np_invoice_response upstream \<Rightarrow> exn + invoice" where
  "create_nowpayments_invoice u =
     (case make_nowpayments_request u of
        Inl e \<Rightarrow> Inl e
      | Inr response \<Rightarrow>
          Inr \<lparr>inv_invoice_id = np_id response,
               inv_payment_url = np_invoice_url response,
               inv_address = np_pay_address response,
               inv_amount = np_pay_amount response,
               inv_currency = np_pay_currency response,
               inv_status = ''pending'',
               inv_expires_at = map_option JStr (np_created_at response),
               inv_provider = ''nowpayments''\<rparr>)"

record btcpay_invoice_response =
  bp_id :: "string option"
  bp_url :: "string option"
  bp_addresses :: "(string \<times> string) list option"
  bp_cryptoInfo :: "rat option list option"
  bp_expirationTime :: "string option"

text \<open>
  \<open>response.get('cryptoInfo', [{}])[0].get('cryptoAmount')\<close>: each list entry is
  modelled by its \<open>cryptoAmount\<close>; an empty list raises \<open>IndexError\<close>.
\<close>

definition create_btcpay_invoice ::
    "payment_service \<Rightarrow> btcpay_invoice_response upstream \<Rightarrow> string \<Rightarrow> exn + invoice" where
  "create_btcpay_invoice svc u cur =
     (case make_btcpay_request svc u of
        Inl e \<Rightarrow> Inl e
      | Inr response \<Rightarrow>
          (case (case bp_cryptoInfo response of None \<Rightarrow> [None] | Some infos \<Rightarrow> infos) of
             [] \<Rightarrow> Inl Index_error
           | first # rest \<Rightarrow>
               Inr \<lparr>inv_invoice_id = bp_id response,
                    inv_payment_url = bp_url response,
                    inv_address =
                      map_of (case bp_addresses response of None \<Rightarrow> [] | Some a \<Rightarrow> a) (upper cur),
                    inv_amount = first,
                    inv_currency = Some (upper cur),
                    inv_status = ''pending'',
                    inv_expires_at = map_option JStr (bp_expirationTime response),
                    inv_provider = ''btcpay''\<rparr>))"

text \<open>
  \<open>_create_manual_invoice\<close>: \<open>uuid8\<close> is \<open>uuid.uuid4().hex[:8]\<close>, \<open>now\<close> is
  \<open>datetime.now()\<close> in seconds.
\<close>

definition create_manual_invoice :: "rat \<Rightarrow> string \<Rightarrow> string \<Rightarrow> nat \<Rightarrow> invoice" where
  "create_manual_invoice amt cur0 uuid8 now =
     (let found = map_of wallet_addresses (upper cur0);
          (address, cur) =
             (if \<not> truthy found then (map_of wallet_addresses ''USDT_TRC20'', ''USDT_TRC20'')
              else (found, cur0))
      in \<lparr>inv_invoice_id = Some (''manual_'' @ uuid8),
           inv_payment_url = None,
           inv_address = address,
           inv_amount = Some amt,
           inv_currency = Some (upper cur),
           inv_status = ''pending'',
           inv_expires_at = Some (JTime (now + 24 * 3600)),
           inv_provider = ''manual''\<rparr>)"

text \<open>
  What the two invoicing providers answer. The order id and the description only enter the
  request sent to them.
\<close>

record providers =
  np_invoice_api :: "np_invoice_response upstream"
  bp_invoice_api :: "btcpay_invoice_response upstream"

text \<open>
  \<open>create_payment_invoice\<close>: the body of the \<open>try\<close> is \<open>attempt\<close>; the \<open>except\<close>
  handler returns the manual invoice.
\<close>

definition create_payment_invoice ::
    "payment_service \<Rightarrow> providers \<Rightarrow> rat \<Rightarrow> string \<Rightarrow> string \<Rightarrow> nat \<Rightarrow> invoice" where
  "create_payment_invoice svc prov amt cur uuid8 now =
     (let attempt =
            (if truthy (nowpayments_api_key svc) then
               create_nowpayments_invoice (np_invoice_api prov)
             else if truthy (btcpay_api_key svc) \<and> truthy (btcpay_url svc) then
               create_btcpay_invoice svc (bp_invoice_api prov) cur
             else Inr (create_manual_invoice amt cur uuid8 now))
      in case attempt of
           Inr created \<Rightarrow> created
         | Inl e \<Rightarrow> create_manual_invoice amt cur uuid8 now)"

subsection \<open>Status checks\<close>

record status_result =
  st_status :: string
  st_amount_paid :: "rat option"
  st_amount_expected :: "rat option"
  st_currency :: "string option"
  st_transaction_id :: "string option"
  st_confirmations :: "rat option"
  st_provider :: "string option"
  st_note :: "string option"
  st_error :: "exn option"

record np_status_response =
  payment_status :: "string option"
  actually_paid :: "rat option"
  pay_amount :: "rat option"
  pay_currency :: "string option"
  np_payment_id :: "string option"
  network_fee :: "rat option"

definition np_status_map :: "(string \<times> string) list" where
  "np_status_map =
     [(''waiting'', ''pending''),
      (''confirming'', ''confirming''),
      (''confirmed'', ''confirmed''),
      (''sending'', ''confirmed''),
      (''partially_paid'', ''partial''),
      (''finished'', ''completed''),
      (''failed'', ''failed''),
      (''refunded'', ''refunded''),
      (''expired'', ''expired'')]"

definition check_nowpayments_status :: "np_status_response upstream \<Rightarrow> exn + status_result" where
  "check_nowpayments_status u =
     (case make_nowpayments_request u of
        Inl e \<Rightarrow> Inl e
      | Inr response \<Rightarrow>
          (let nowpayments_status =
                 (case payment_status response of None \<Rightarrow> ''waiting'' | Some s \<Rightarrow> s);
               our_status =
                 (case map_of np_status_map nowpayments_status of None \<Rightarrow> ''unknown'' | Some s \<Rightarrow> s)
           in Inr \<lparr>st_status = our_status,
                   st_amount_paid = actually_paid response,
                   st_amount_expected = pay_amount response,
                   st_currency = pay_currency response,
                   st_transaction_id = np_payment_id response,
                   st_confirmations = network_fee response,
                   st_provider = Some ''nowpayments'',
                   st_note = None,
                   st_error = None\<rparr>))"

record btcpay_status_response =
  bps_status :: "string option"
  bps_price :: "rat option"
  bps_currency :: "string option"
  bps_id :: "string option"

definition btcpay_status_map :: "(string \<times> string) list" where
  "btcpay_status_map =
     [(''New'', ''pending''),
      (''Paid'', ''confirming''),
      (''Confirmed'', ''confirmed''),
      (''Complete'', ''completed''),
      (''Expired'', ''expired''),
      (''Invalid'', ''failed'')]"

definition check_btcpay_status ::
    "payment_service \<Rightarrow> btcpay_status_response upstream \<Rightarrow> exn + status_result" where
  "check_btcpay_status svc u =
     (case make_btcpay_request svc u of
        Inl e \<Rightarrow> Inl e
      | Inr response \<Rightarrow>
          (let btcpay_status = (case bps_status response of None \<Rightarrow> ''New'' | Some s \<Rightarrow> s);
               our_status =
                 (case map_of btcpay_status_map btcpay_status of None \<Rightarrow> ''unknown'' | Some s \<Rightarrow> s)
           in Inr \<lparr>st_status = our_status,
                   st_amount_paid = bps_price response,
                   st_amount_expected = bps_price response,
                   st_currency = bps_currency response,
                   st_transaction_id = bps_id response,
                   st_confirmations = None,
                   st_provider = Some ''btcpay'',
                   st_note = None,
                   st_error = None\<rparr>))"

text \<open>\<open>_check_manual_payment_status\<close>: a fixed dictionary, whatever the invoice.\<close>

definition check_manual_payment_status :: "string \<Rightarrow> status_result" where
  "check_manual_payment_status invoice_id =
     \<lparr>st_status = ''pending'',
      st_amount_paid = Some 0,
      st_amount_expected = Some 0,
      st_currency = Some ''USDT'',
      st_transaction_id = None,
      st_confirmations = None,
      st_provider = Some ''manual'',
      st_note = Some ''Manual verification required'',
      st_error = None\<rparr>"

text \<open>What the providers answer to a status request, per invoice id.\<close>

record status_apis =
  np_status_api :: "string \<Rightarrow> np_status_response upstream"
  bp_status_api :: "string \<Rightarrow> btcpay_status_response upstream"

definition check_payment_status ::
    "payment_service \<Rightarrow> status_apis \<Rightarrow> string \<Rightarrow> string option \<Rightarrow> status_result" where
  "check_payment_status svc apis invoice_id prov_name =
     (let attempt =
            (if prov_name = Some ''nowpayments'' \<and> truthy (nowpayments_api_key svc) then
               check_nowpayments_status (np_status_api apis invoice_id)
             else if prov_name = Some ''btcpay'' \<and> truthy (btcpay_api_key svc) then
               check_btcpay_status svc (bp_status_api apis invoice_id)
             else Inr (check_manual_payment_status invoice_id))
      in case attempt of
           Inr r \<Rightarrow> r
         | Inl e \<Rightarrow>
             \<lparr>st_status = ''unknown'',
              st_amount_paid = None,
              st_amount_expected = None,
              st_currency = None,
              st_transaction_id = None,
              st_confirmations = None,
              st_provider = None,
              st_note = None,
              st_error = Some e\<rparr>)"

section \<open>The specification's vocabulary for verifiers\<close>

text \<open>
  The decimal exponent of each network, as the specification tabulates it, and the
  conversion of a raw integer amount to human units with it.
\<close>

datatype network = BTC | ERC20 | TRC20 | BEP20

















section \<open>Example inputs\<close>

definition example_payment :: payment where
  "example_payment =
     \<lparr>payment_id = ''p1'', user_id = 7, provider = ''manual'', amount = 50,
      currency = ''USDT'', status = ''pending'', transaction_id = None,
      payment_data = [], created_at = 100, updated_at = 100\<rparr>"

definition completed_payment :: payment where
  "completed_payment = example_payment\<lparr>status := ''completed'', transaction_id := Some ''tx1''\<rparr>"

definition paid_payment :: payment where
  "paid_payment = example_payment\<lparr>transaction_id := Some ''tx1''\<rparr>"

definition all_configured :: payment_service where
  "all_configured =
     \<lparr>nowpayments_api_key = Some ''np-key'', btcpay_api_key = Some ''bp-key'',
      btcpay_url = Some ''https://btcpay.example''\<rparr>"

definition btcpay_only :: payment_service where
  "btcpay_only =
     \<lparr>nowpayments_api_key = None, btcpay_api_key = Some ''bp-key'',
      btcpay_url = Some ''https://btcpay.example''\<rparr>"

definition unconfigured :: payment_service where
  "unconfigured = \<lparr>nowpayments_api_key = None, btcpay_api_key = None, btcpay_url = None\<rparr>"

text \<open>NowPayments unreachable while BTCPay answers with an invoice.\<close>

definition nowpayments_down :: providers where
  "nowpayments_down =
     \<lparr>np_invoice_api = Raised,
      bp_invoice_api = Response 200
        \<lparr>bp_id = Some ''inv42'', bp_url = Some ''https://btcpay.example/i/inv42'',
         bp_addresses = Some [(''BTC'', ''bc1qexample'')], bp_cryptoInfo = Some [Some (1 / 1000)],
         bp_expirationTime = Some ''2025-01-02''\<rparr>\<rparr>"

definition no_status_apis :: status_apis where
  "no_status_apis = \<lparr>np_status_api = (\<lambda>i. Raised), bp_status_api = (\<lambda>i. Raised)\<rparr>"

definition tron_wallet :: string where
  "tron_wallet = ''TJkLFH53mJUzaTMxLtYqa28jzL9CppJotV''"

text \<open>A chain on which a confirmed TRC20 transfer of 50 USDT to the wallet is visible.\<close>

definition tron_paid_chain :: chain where
  "tron_paid_chain =
     \<lparr>btc_api = (\<lambda>a. Raised), eth_api = (\<lambda>a. Raised), bsc_api = (\<lambda>a. Raised),
      tron_api = (\<lambda>a. Response 200
         \<lparr>success = True,
          data = Some [\<lparr>trc_to = Some tron_wallet, trc_value = Some 50000000,
                        trc_transaction_id = Some ''trx1'', trc_block_number = Some 123\<rparr>]\<rparr>),
      tron_lookup = (\<lambda>t. Response 200 \<lparr>body_blockNumber = Some 123, energy_usage_total = None\<rparr>)\<rparr>"









section \<open>Properties of the Payment model\<close>

lemma valid_statuses_set:
  "set valid_statuses = {''pending'', ''completed'', ''failed'', ''cancelled''}"
  by (auto simp: valid_statuses_def)

lemma status_set_data_key [simp]: "status (set_data_key k v p) = status p"
  by (simp add: set_data_key_def)

lemma transaction_id_set_data_key [simp]: "transaction_id (set_data_key k v p) = transaction_id p"
  by (simp add: set_data_key_def)

lemma status_update_status:
  "status (snd (update_status now s tid p)) = (if s \<in> set valid_statuses then s else status p)"
  by (simp add: update_status_def Let_def)

lemma transaction_id_update_status:
  "transaction_id (snd (update_status now s tid p)) =
     (if s \<in> set valid_statuses \<and> truthy tid then tid else transaction_id p)"
  by (simp add: update_status_def Let_def)

text \<open>
  C10. \<open>update_status(s)\<close> returns true exactly when \<open>s\<close> is one of \<open>pending\<close>,
  \<open>completed\<close>, \<open>failed\<close>, \<open>cancelled\<close>, and then the stored status is \<open>s\<close>. For any
  other string, among them \<open>confirming\<close>, \<open>confirmed\<close>, \<open>expired\<close>, \<open>partial\<close> and
  \<open>unknown\<close>, it returns false and the whole record (status, transaction id and
  \<open>updated_at\<close> with it) is unchanged. Hence a status in the four-element set stays
  in that set across every call.
\<close>

theorem update_status_iff:
  "(fst (update_status now s tid p) \<longleftrightarrow> s \<in> {''pending'', ''completed'', ''failed'', ''cancelled''}) \<and>
   (s \<in> {''pending'', ''completed'', ''failed'', ''cancelled''} \<longrightarrow>
      status (snd (update_status now s tid p)) = s) \<and>
   (s \<notin> {''pending'', ''completed'', ''failed'', ''cancelled''} \<longrightarrow>
      update_status now s tid p = (False, p)) \<and>
   (\<forall>c \<in> {''confirming'', ''confirmed'', ''expired'', ''partial'', ''unknown''}.
      update_status now c tid p = (False, p)) \<and>
   (status p \<in> {''pending'', ''completed'', ''failed'', ''cancelled''} \<longrightarrow>
      status (snd (update_status now s tid p)) \<in> {''pending'', ''completed'', ''failed'', ''cancelled''})"
  unfolding valid_statuses_set [symmetric]
  by (auto simp: update_status_def Let_def valid_statuses_def)

theorem update_status_iff_witness:
  "fst (update_status 200 ''completed'' None example_payment) \<and>
   status (snd (update_status 200 ''completed'' None example_payment)) = ''completed'' \<and>
   update_status 200 ''confirmed'' (Some ''tx1'') example_payment = (False, example_payment) \<and>
   status (snd (update_status 200 ''failed'' None example_payment))
     \<in> {''pending'', ''completed'', ''failed'', ''cancelled''}"
  using update_status_iff [of 200 "''completed''" None example_payment]
    update_status_iff [of 200 "''confirmed''" "Some ''tx1''" example_payment]
    update_status_iff [of 200 "''failed''" None example_payment]
  by (simp add: example_payment_def)

section \<open>Histories of status-writing operations\<close>

lemma status_apply_op:
  "status (apply_op (now, x) p) = status p \<or> status (apply_op (now, x) p) = requested_status x"
  by (cases x)
    (auto simp: status_update_status mark_failed_def cancel_def sync_payment_def Let_def
      cancel_payment_def force_confirm_payment_def mark_completed_def
      split: option.splits)

lemma requested_status_valid:
  "status (apply_op (now, x) p) = requested_status x \<Longrightarrow>
   status (apply_op (now, x) p) \<noteq> status p \<Longrightarrow>
   requested_status x \<in> set valid_statuses"
  by (cases x)
    (auto simp: status_update_status mark_failed_def cancel_def sync_payment_def Let_def
      cancel_payment_def force_confirm_payment_def mark_completed_def valid_statuses_def
      sync_results_def random_choice_def
      split: option.splits if_splits)

lemma terminal_step:
  assumes "terminal (status p)" and "requested_status x \<noteq> ''pending''"
  shows "terminal (status (apply_op (now, x) p))"
proof (cases "status (apply_op (now, x) p) = status p")
  case True
  with assms show ?thesis by simp
next
  case False
  with status_apply_op [of now x p] have eq: "status (apply_op (now, x) p) = requested_status x"
    by blast
  from requested_status_valid [OF eq False] assms(2)
  have "requested_status x \<in> {''completed'', ''failed'', ''cancelled''}"
    by (simp add: valid_statuses_def)
  with eq show ?thesis by (auto simp: terminal_def)
qed

text \<open>
  C1, as the code has it. \<open>update_status\<close> has no guard on the current status, and
  \<open>sync_payment\<close> writes whichever of \<open>completed\<close>, \<open>pending\<close>, \<open>failed\<close> it drew. A
  record in a terminal status stays in a terminal status across every history in which
  no operation asks for \<open>pending\<close>.
\<close>

theorem terminal_kept_without_pending:
  "terminal (status p) \<Longrightarrow> \<forall>x \<in> set ops. requested_status (snd x) \<noteq> ''pending''
     \<Longrightarrow> terminal (status (run_ops ops p))"
proof (induction ops arbitrary: p)
  case Nil
  then show ?case by simp
next
  case (Cons x ops)
  obtain now y where x: "x = (now, y)" by (cases x)
  from Cons.prems have "terminal (status (apply_op x p))"
    unfolding x by (auto intro: terminal_step)
  with Cons show ?case by simp
qed

theorem terminal_kept_without_pending_witness:
  "terminal (status completed_payment) \<and>
   terminal (status (run_ops
      [(300, Sync 2), (301, Cancel None), (302, Update_status ''confirming'' None)]
      completed_payment))"
proof -
  have t: "terminal (status completed_payment)"
    by (simp add: completed_payment_def example_payment_def terminal_def)
  have h: "\<forall>x \<in> set [(300::nat, Sync 2), (301, Cancel None), (302, Update_status ''confirming'' None)].
             requested_status (snd x) \<noteq> ''pending''"
    by (simp add: random_choice_def sync_results_def)
  from terminal_kept_without_pending [OF t h] t show ?thesis by simp
qed

text \<open>
  C1 as claimed fails: a completed record that is synced, with the draw falling on
  \<open>pending\<close>, is pending afterwards.
\<close>

theorem terminal_reset_counterexample:
  "terminal (status completed_payment) \<and>
   \<not> terminal (status (run_ops [(300, Sync 1)] completed_payment))"
  by (simp add: completed_payment_def example_payment_def terminal_def sync_payment_def
      random_choice_def sync_results_def update_status_def valid_statuses_def Let_def)

text \<open>
  C3, as the code has it. A transition into \<open>completed\<close> that carries no transaction id
  (\<open>None\<close> or the empty string) is accepted: the call returns true, the status becomes
  \<open>completed\<close> and the stored transaction id is left as it was. A transition into
  \<open>confirmed\<close> is rejected with or without a transaction id, because \<open>confirmed\<close> is not
  one of the statuses \<open>update_status\<close> accepts, and the record is unchanged.
\<close>

theorem completed_without_txid_accepted:
  "mark_completed now None p = (True, p\<lparr>status := ''completed'', updated_at := now\<rparr>) \<and>
   mark_completed now (Some []) p = (True, p\<lparr>status := ''completed'', updated_at := now\<rparr>) \<and>
   update_status now ''completed'' None p = (True, p\<lparr>status := ''completed'', updated_at := now\<rparr>) \<and>
   update_status now ''confirmed'' tid p = (False, p)"
  by (simp add: mark_completed_def update_status_def valid_statuses_def Let_def)

text \<open>
  C3 as claimed fails: \<open>mark_completed()\<close> without a transaction id on a pending record
  reports success and leaves the record completed, with no transaction id.
\<close>

theorem completed_without_txid_counterexample:
  "status example_payment = ''pending'' \<and>
   fst (mark_completed 200 None example_payment) \<and>
   status (snd (mark_completed 200 None example_payment)) = ''completed'' \<and>
   transaction_id (snd (mark_completed 200 None example_payment)) = None"
  by (simp add: example_payment_def mark_completed_def update_status_def valid_statuses_def Let_def)

lemma transaction_id_apply_op:
  "transaction_id (apply_op (now, x) p) = transaction_id p \<or>
   (truthy (carried_txid x) \<and> transaction_id (apply_op (now, x) p) = carried_txid x)"
  by (cases x)
    (auto simp: transaction_id_update_status mark_failed_def cancel_def sync_payment_def Let_def
      cancel_payment_def force_confirm_payment_def mark_completed_def
      split: option.splits)

lemma truthy_not_None: "truthy t \<Longrightarrow> t \<noteq> None"
  by (cases t) auto

text \<open>
  C4, as the code has it. A transaction id that is set is never cleared: after any
  history of operations the record still has one. It is left as it was by every
  operation that carries no non-empty transaction id (sync, cancel, \<open>mark_failed\<close>,
  \<open>update_status\<close> without one); an operation that carries one may replace it.
\<close>

theorem transaction_id_never_cleared:
  "(transaction_id p \<noteq> None \<longrightarrow> transaction_id (run_ops ops p) \<noteq> None) \<and>
   ((\<forall>x \<in> set ops. \<not> truthy (carried_txid (snd x))) \<longrightarrow>
      transaction_id (run_ops ops p) = transaction_id p)"
proof (induction ops arbitrary: p)
  case Nil
  then show ?case by simp
next
  case (Cons x ops)
  obtain now y where x: "x = (now, y)" by (cases x)
  have step: "transaction_id (apply_op x p) = transaction_id p \<or>
      (truthy (carried_txid y) \<and> transaction_id (apply_op x p) = carried_txid y)"
    unfolding x by (rule transaction_id_apply_op)
  have a: "transaction_id p \<noteq> None \<Longrightarrow> transaction_id (apply_op x p) \<noteq> None"
    using step truthy_not_None by metis
  have b: "\<not> truthy (carried_txid y) \<Longrightarrow> transaction_id (apply_op x p) = transaction_id p"
    using step by blast
  from Cons.IH [of "apply_op x p"] a b show ?case
    by (simp add: x)
qed

theorem transaction_id_never_cleared_witness:
  "transaction_id paid_payment \<noteq> None \<and>
   transaction_id (run_ops [(300, Sync 0), (301, Update_status ''failed'' None)] paid_payment)
     = Some ''tx1''"
  using transaction_id_never_cleared
    [of paid_payment "[(300, Sync 0), (301, Update_status ''failed'' None)]"]
  by (simp add: paid_payment_def example_payment_def)

text \<open>
  C4 as claimed fails: a force-confirm with transaction id \<open>tx2\<close> on a pending record
  already attributed to \<open>tx1\<close> reassigns it.
\<close>

theorem transaction_id_reassigned_counterexample:
  "transaction_id paid_payment = Some ''tx1'' \<and>
   transaction_id
     (run_ops [(300, Force_confirm (Some (Some ''tx2'')) ''20250101_000000'' 1)] paid_payment)
     = Some ''tx2''"
  by (simp add: paid_payment_def example_payment_def force_confirm_payment_def get_field_def
      mark_completed_def update_status_def valid_statuses_def Let_def set_data_key_def)

section \<open>Provider selection\<close>

lemma inv_provider_manual [simp]:
  "inv_provider (create_manual_invoice amt cur uuid8 now) = ''manual''"
  by (simp add: create_manual_invoice_def Let_def split: prod.splits)

lemma inv_provider_nowpayments:
  "create_nowpayments_invoice u = Inr i \<Longrightarrow> inv_provider i = ''nowpayments''"
  by (auto simp: create_nowpayments_invoice_def split: sum.splits)

lemma inv_provider_btcpay:
  "create_btcpay_invoice svc u cur = Inr i \<Longrightarrow> inv_provider i = ''btcpay''"
  by (auto simp: create_btcpay_invoice_def split: sum.splits list.splits)

text \<open>
  C2, as the code has it. With the NowPayments key configured the invoice is issued by
  NowPayments exactly when that call does not raise; when it raises the invoice is the
  manual one, whether BTCPay is configured or not. BTCPay is tried only when NowPayments
  is not configured and BTCPay is; when that call raises the invoice is the manual one.
  With neither configured the invoice is the manual one.
\<close>

theorem provider_selection:
  "(truthy (nowpayments_api_key svc) \<longrightarrow>
      inv_provider (create_payment_invoice svc prov amt cur uuid8 now) =
        (if isl (create_nowpayments_invoice (np_invoice_api prov)) then ''manual''
         else ''nowpayments'')) \<and>
   (\<not> truthy (nowpayments_api_key svc) \<and> truthy (btcpay_api_key svc) \<and> truthy (btcpay_url svc) \<longrightarrow>
      inv_provider (create_payment_invoice svc prov amt cur uuid8 now) =
        (if isl (create_btcpay_invoice svc (bp_invoice_api prov) cur) then ''manual''
         else ''btcpay'')) \<and>
   (\<not> truthy (nowpayments_api_key svc) \<and> \<not> (truthy (btcpay_api_key svc) \<and> truthy (btcpay_url svc)) \<longrightarrow>
      inv_provider (create_payment_invoice svc prov amt cur uuid8 now) = ''manual'')"
  by (auto simp: create_payment_invoice_def Let_def inv_provider_nowpayments inv_provider_btcpay
      split: sum.splits)

theorem provider_selection_witness:
  "truthy (nowpayments_api_key all_configured) \<and>
   inv_provider (create_payment_invoice all_configured nowpayments_down 50 ''BTC'' ''ab12cd34'' 1000)
     = ''manual'' \<and>
   \<not> truthy (nowpayments_api_key btcpay_only) \<and> truthy (btcpay_api_key btcpay_only) \<and>
   truthy (btcpay_url btcpay_only) \<and>
   inv_provider (create_payment_invoice btcpay_only nowpayments_down 50 ''BTC'' ''ab12cd34'' 1000)
     = ''btcpay'' \<and>
   \<not> truthy (nowpayments_api_key unconfigured) \<and> \<not> truthy (btcpay_api_key unconfigured) \<and>
   inv_provider (create_payment_invoice unconfigured nowpayments_down 50 ''BTC'' ''ab12cd34'' 1000)
     = ''manual''"
  using provider_selection [of all_configured nowpayments_down 50 "''BTC''" "''ab12cd34''" 1000]
    provider_selection [of btcpay_only nowpayments_down 50 "''BTC''" "''ab12cd34''" 1000]
    provider_selection [of unconfigured nowpayments_down 50 "''BTC''" "''ab12cd34''" 1000]
  by (simp add: all_configured_def btcpay_only_def unconfigured_def nowpayments_down_def
      create_nowpayments_invoice_def make_nowpayments_request_def
      create_btcpay_invoice_def make_btcpay_request_def)

text \<open>
  C2 as claimed fails: with both providers configured, NowPayments raising and BTCPay
  ready to answer, the invoice comes from the manual provider; BTCPay is never called.
\<close>

theorem btcpay_skipped_counterexample:
  "truthy (nowpayments_api_key all_configured) \<and>
   truthy (btcpay_api_key all_configured) \<and> truthy (btcpay_url all_configured) \<and>
   isl (create_nowpayments_invoice (np_invoice_api nowpayments_down)) \<and>
   \<not> isl (create_btcpay_invoice all_configured (bp_invoice_api nowpayments_down) ''BTC'') \<and>
   inv_provider (create_payment_invoice all_configured nowpayments_down 50 ''BTC'' ''ab12cd34'' 1000)
     = ''manual''"
  by (simp add: all_configured_def nowpayments_down_def create_nowpayments_invoice_def
      make_nowpayments_request_def create_btcpay_invoice_def make_btcpay_request_def
      create_payment_invoice_def Let_def)

section \<open>Status of a manual invoice\<close>

lemma upper_USDT: "upper ''USDT'' = ''USDT''"
  by code_simp

text \<open>
  C5, as the code has it. The status check of a manual invoice consults no verifier: for
  every service, every upstream and every invoice id it returns the same dictionary, with
  status \<open>pending\<close> and no transaction id.
\<close>

theorem manual_status_fixed:
  "check_payment_status svc apis invoice_id (Some ''manual'') =
     \<lparr>st_status = ''pending'', st_amount_paid = Some 0, st_amount_expected = Some 0,
      st_currency = Some ''USDT'', st_transaction_id = None, st_confirmations = None,
      st_provider = Some ''manual'', st_note = Some ''Manual verification required'',
      st_error = None\<rparr>"
  by (simp add: check_payment_status_def check_manual_payment_status_def)

text \<open>
  C5 as claimed fails: the TRON verifier reports the confirmed transfer of 50 USDT to the
  wallet as verified, with its transaction id, and the status check of the manual invoice
  still answers \<open>pending\<close> without a transaction id.
\<close>

theorem manual_status_counterexample:
  "verify_payment tron_paid_chain ''USDT'' tron_wallet 50 (Some ''TRC20'')
     = Verified (Some ''trx1'') 50 1 (Some 123) \<and>
   st_status (check_payment_status unconfigured no_status_apis ''manual_ab12cd34'' (Some ''manual''))
     = ''pending'' \<and>
   st_transaction_id
     (check_payment_status unconfigured no_status_apis ''manual_ab12cd34'' (Some ''manual''))
     = None"
  by (simp add: verify_payment_def upper_USDT Let_def tron_paid_chain_def
      verify_tron_usdt_payment_def make_request_def get_tron_transaction_info_def
      check_payment_status_def check_manual_payment_status_def)

section \<open>The verifier loops as a search for the first match\<close>












section \<open>Decimal scaling\<close>


section \<open>Which transfer a verifier accepts\<close>



section \<open>Failed fetches and empty listings\<close>

lemma fetch_failure_is_error:
  "make_request ub = None \<Longrightarrow> verify_btc_payment ub address amt = Not_verified_error Failed_to_fetch"
  "make_request us = None \<Longrightarrow> verify_eth_usdt_payment us address amt = Not_verified_error Failed_to_fetch"
  "make_request us = None \<Longrightarrow> verify_bsc_usdt_payment us address amt = Not_verified_error Failed_to_fetch"
  "make_request ut = None \<Longrightarrow>
     verify_tron_usdt_payment ut lookup_tx address amt = Not_verified_error Failed_to_fetch"
  by (simp_all add: verify_btc_payment_def verify_eth_usdt_payment_def verify_bsc_usdt_payment_def
      verify_tron_usdt_payment_def)

lemma make_request_None: "make_request u = None \<longleftrightarrow> (u = Raised \<or> (\<exists>code body. u = Response code body \<and> code \<noteq> 200))"
  by (cases u) (auto simp: make_request_def)

text \<open>
  C8 on the code. The Bitcoin verifier answers a successful response that lists no
  transaction at all with the error of a failed fetch, where the claim asks for the
  not-found reason; the TRON, Ethereum and BSC verifiers answer the same situation with
  the not-found reason.
\<close>

theorem btc_empty_listing_is_error:
  "verify_btc_payment (Response 200 []) address amt = Not_verified_error Failed_to_fetch \<and>
   verify_tron_usdt_payment (Response 200 \<lparr>success = True, data = Some []\<rparr>) lookup_tx address amt
     = Not_verified_reason ''Payment not found or insufficient amount'' \<and>
   verify_eth_usdt_payment (Response 200 \<lparr>resp_status = Some ''1'', resp_result = Some []\<rparr>)
     address amt = Not_verified_reason ''Payment not found or insufficient amount'' \<and>
   verify_bsc_usdt_payment (Response 200 \<lparr>resp_status = Some ''1'', resp_result = Some []\<rparr>)
     address amt = Not_verified_reason ''Payment not found or insufficient amount''"
  by (simp add: verify_btc_payment_def verify_tron_usdt_payment_def verify_eth_usdt_payment_def
      verify_bsc_usdt_payment_def make_request_def not_found_def)

section \<open>Transfers below the expected amount\<close>





end
